theory Spec2Isabelle
  imports Main "HOL-Library.Word"
begin

section \<open>Platform values\<close>

text \<open>
  A \<^verbatim>\<open>Blob\<close> is an immutable byte sequence with a MIME type. Its \<^verbatim>\<open>size\<close> attribute is
  the number of bytes. The constructor \<^verbatim>\<open>new Blob(parts, { type })\<close> concatenates the
  bytes of its parts in order and carries the given type (type strings are taken as already
  in the platform's normal form: lower-case printable ASCII, as every literal of the
  sources is).
\<close>

type_synonym byte = "8 word"

record Blob =
  blob_data :: "byte list"
  blob_type :: string

definition blob_size :: "Blob \<Rightarrow> nat" where
  "blob_size b = length (blob_data b)"

definition new_Blob :: "Blob list \<Rightarrow> string \<Rightarrow> Blob" where
  "new_Blob parts ty = \<lparr>blob_data = concat (map blob_data parts), blob_type = ty\<rparr>"

text \<open>
  A media stream is a list of tracks; each track has an identity and a kind
  (\<^verbatim>\<open>audio\<close> or \<^verbatim>\<open>video\<close>). Whether a track has been stopped is platform state, kept in
  the set \<open>stoppedTracks\<close> below.
\<close>

record MediaStreamTrack =
  track_id :: nat
  kind :: string

record MediaStream =
  getTracks :: "MediaStreamTrack list"

definition getAudioTracks :: "MediaStream \<Rightarrow> MediaStreamTrack list" where
  "getAudioTracks stream = filter (\<lambda>t. kind t = ''audio'') (getTracks stream)"

text \<open>
  The recorder object: the stream it records, the \<^verbatim>\<open>mimeType\<close> option it was constructed
  with (\<open>None\<close> when constructed without options) and its \<^verbatim>\<open>state\<close> attribute.
\<close>

datatype RecordingState = inactive | recording | paused

record MediaRecorder =
  rec_stream :: MediaStream
  rec_mimeType :: "string option"
  rec_state :: RecordingState

text \<open>
  A value thrown by the platform: an \<^verbatim>\<open>Error\<close> instance with its \<^verbatim>\<open>name\<close> and
  \<^verbatim>\<open>message\<close>, or something that is not an \<^verbatim>\<open>Error\<close> instance.
\<close>

datatype thrown = ErrorObj (err_name: string) (err_message: string) | NonError

section \<open>The recorder component (AudioRecorder)\<close>

text \<open>
  The component's \<^verbatim>\<open>useState\<close> cells and \<^verbatim>\<open>useRef\<close> cells, followed by the part of the
  platform its handlers act on: the number of \<^verbatim>\<open>getUserMedia\<close> requests issued and
  settled, the tracks that have been stopped, the interval timers that are running, the
  next timer identity, and the object URLs that have been revoked.
\<close>

record AudioRecorder =
  isRecording :: bool
  audioBlob :: "Blob option"
  recordingTime :: nat
  audioUrl :: string
  error :: string
  isSupported :: bool
  mediaRecorderRef :: "MediaRecorder option"
  audioChunksRef :: "Blob list"
  timerRef :: "nat option"
  streamRef :: "MediaStream option"
  requestsIssued :: nat
  requestsSettled :: nat
  stoppedTracks :: "nat set"
  activeTimers :: "nat set"
  nextTimer :: nat
  revokedUrls :: "string set"

text \<open>The component as first rendered (the capability check of the effect has passed).\<close>

definition initial :: AudioRecorder where
  "initial = \<lparr>isRecording = False, audioBlob = None, recordingTime = 0, audioUrl = [],
     error = [], isSupported = True, mediaRecorderRef = None, audioChunksRef = [],
     timerRef = None, streamRef = None, requestsIssued = 0, requestsSettled = 0,
     stoppedTracks = {}, activeTimers = {}, nextTimer = 1, revokedUrls = {}\<rparr>"

subsection \<open>Encoding negotiation\<close>

definition types :: "string list" where
  "types = [''audio/webm;codecs=opus'', ''audio/webm'', ''audio/ogg;codecs=opus'',
            ''audio/mp4'', ''audio/wav'']"

fun first_supported :: "(string \<Rightarrow> bool) \<Rightarrow> string list \<Rightarrow> string" where
  "first_supported isTypeSupported [] = ''audio/webm''"
| "first_supported isTypeSupported (ty # tys) =
     (if isTypeSupported ty then ty else first_supported isTypeSupported tys)"

definition getSupportedMimeType :: "(string \<Rightarrow> bool) \<Rightarrow> string" where
  "getSupportedMimeType isTypeSupported = first_supported isTypeSupported types"

subsection \<open>Recorder event handlers\<close>

text \<open>\<^verbatim>\<open>mediaRecorder.ondataavailable\<close>: a fragment is pushed only when its size is positive.\<close>

definition ondataavailable :: "Blob \<Rightarrow> AudioRecorder \<Rightarrow> AudioRecorder" where
  "ondataavailable data s =
     (if 0 < blob_size data then s\<lparr>audioChunksRef := audioChunksRef s @ [data]\<rparr> else s)"

text \<open>The \<^verbatim>\<open>reduce\<close> of the stop handler: the sizes of the chunks, summed from the left.\<close>

definition totalSize :: "Blob list \<Rightarrow> nat" where
  "totalSize chunks = foldl (\<lambda>sum chunk. sum + blob_size chunk) 0 chunks"

text \<open>\<^verbatim>\<open>audioChunksRef.current[0]?.type || 'audio/webm'\<close>\<close>

definition firstChunkType :: "Blob list \<Rightarrow> string" where
  "firstChunkType chunks =
     (case chunks of
        [] \<Rightarrow> ''audio/webm''
      | c # _ \<Rightarrow> (if blob_type c = [] then ''audio/webm'' else blob_type c))"

text \<open>
  \<^verbatim>\<open>URL.createObjectURL\<close> returns a fresh URL of the \<^verbatim>\<open>blob:\<close> scheme; the platform picks
  the part after the scheme.
\<close>

definition createObjectURL :: "string \<Rightarrow> string" where
  "createObjectURL u = ''blob:'' @ u"

text \<open>The \<^verbatim>\<open>Clean up stream\<close> block at the end of the stop handler.\<close>

definition cleanup_stream :: "AudioRecorder \<Rightarrow> AudioRecorder" where
  "cleanup_stream s =
     (case streamRef s of
        None \<Rightarrow> s
      | Some stream \<Rightarrow>
          s\<lparr>stoppedTracks := stoppedTracks s \<union> set (map track_id (getTracks stream)),
            streamRef := None\<rparr>)"

text \<open>
  \<^verbatim>\<open>mediaRecorder.onstop\<close>. The first two branches return early; the stream is cleaned up
  only on the path that reaches the end of the handler.
\<close>

definition onstop :: "string \<Rightarrow> AudioRecorder \<Rightarrow> AudioRecorder" where
  "onstop u s =
     (if length (audioChunksRef s) = 0
      then s\<lparr>error := ''No audio data was recorded. Please try again.''\<rparr>
      else if totalSize (audioChunksRef s) = 0
      then s\<lparr>error := ''Recorded audio file is empty. Please check your microphone and try again.''\<rparr>
      else
        let blob = new_Blob (audioChunksRef s) (firstChunkType (audioChunksRef s));
            s1 = (if 0 < blob_size blob
                  then s\<lparr>audioBlob := Some blob, audioUrl := createObjectURL u\<rparr>
                  else s\<lparr>error := ''Failed to create audio file. Please try recording again.''\<rparr>)
        in cleanup_stream s1)"

text \<open>The fragments of one recording, delivered in emission order.\<close>

definition deliver :: "Blob list \<Rightarrow> AudioRecorder \<Rightarrow> AudioRecorder" where
  "deliver frags s = foldl (\<lambda>s data. ondataavailable data s) s frags"

subsection \<open>Starting a recording\<close>

text \<open>
  What the platform answers during one run of \<^verbatim>\<open>startRecording\<close>: the outcome of
  \<^verbatim>\<open>getUserMedia\<close> (a thrown value or a stream), the feature probe
  \<^verbatim>\<open>MediaRecorder.isTypeSupported\<close>, whether each of the two recorder constructions
  throws, and whether \<^verbatim>\<open>mediaRecorder.start(100)\<close> throws.
\<close>

record start_env =
  getUserMedia :: "thrown + MediaStream"
  isTypeSupported :: "string \<Rightarrow> bool"
  construct_with_mimeType :: "thrown option"
  construct_without_options :: "thrown option"
  start_call :: "thrown option"

text \<open>The message assembled by the \<^verbatim>\<open>catch\<close> block of \<^verbatim>\<open>startRecording\<close>.\<close>

definition errorMessage :: "thrown \<Rightarrow> string" where
  "errorMessage e = ''Error accessing microphone. '' @
     (case e of
        ErrorObj name message \<Rightarrow>
          (if name = ''NotAllowedError'' then ''Please allow microphone access and try again.''
           else if name = ''NotFoundError'' then ''No microphone found. Please connect a microphone.''
           else if name = ''NotSupportedError'' then ''Audio recording is not supported in this browser.''
           else if name = ''NotReadableError'' then ''Microphone is being used by another application.''
           else message)
      | NonError \<Rightarrow> ''Please check your microphone permissions.'')"

definition catch_block :: "thrown \<Rightarrow> AudioRecorder \<Rightarrow> AudioRecorder" where
  "catch_block e s = s\<lparr>error := errorMessage e, isRecording := False\<rparr>"

text \<open>
  The inner \<^verbatim>\<open>try\<close>: construction with the negotiated type, and on any throw a second
  construction without options, whose throw reaches the outer \<^verbatim>\<open>catch\<close>.
\<close>

definition construct_recorder :: "start_env \<Rightarrow> MediaStream \<Rightarrow> string \<Rightarrow> thrown + MediaRecorder" where
  "construct_recorder env stream mimeType =
     (case construct_with_mimeType env of
        None \<Rightarrow> Inr \<lparr>rec_stream = stream, rec_mimeType = Some mimeType, rec_state = inactive\<rparr>
      | Some _ \<Rightarrow>
          (case construct_without_options env of
             None \<Rightarrow> Inr \<lparr>rec_stream = stream, rec_mimeType = None, rec_state = inactive\<rparr>
           | Some e \<Rightarrow> Inl e))"

text \<open>
  \<^verbatim>\<open>startRecording\<close> is asynchronous. Up to the \<^verbatim>\<open>await\<close> it clears the error message and
  issues the device request; other handlers may run before the request settles.
\<close>

definition startRecording_request :: "AudioRecorder \<Rightarrow> AudioRecorder" where
  "startRecording_request s = s\<lparr>error := [], requestsIssued := requestsIssued s + 1\<rparr>"

text \<open>The continuation of \<^verbatim>\<open>startRecording\<close> once the device request has settled.\<close>

definition startRecording_resume :: "start_env \<Rightarrow> AudioRecorder \<Rightarrow> AudioRecorder" where
  "startRecording_resume env s =
     (let s0 = s\<lparr>requestsSettled := requestsSettled s + 1\<rparr> in
      case getUserMedia env of
        Inl e \<Rightarrow> catch_block e s0
      | Inr stream \<Rightarrow>
         (let s1 = s0\<lparr>streamRef := Some stream\<rparr> in
          if length (getAudioTracks stream) = 0
          then catch_block (ErrorObj ''Error'' ''No audio tracks found in media stream'') s1
          else
           (case construct_recorder env stream (getSupportedMimeType (isTypeSupported env)) of
              Inl e \<Rightarrow> catch_block e s1
            | Inr mediaRecorder \<Rightarrow>
               (let s2 = s1\<lparr>mediaRecorderRef := Some mediaRecorder, audioChunksRef := []\<rparr> in
                case start_call env of
                  Some e \<Rightarrow> catch_block e s2
                | None \<Rightarrow>
                    s2\<lparr>mediaRecorderRef := Some (mediaRecorder\<lparr>rec_state := recording\<rparr>),
                       isRecording := True,
                       recordingTime := 0,
                       timerRef := Some (nextTimer s2),
                       activeTimers := insert (nextTimer s2) (activeTimers s2),
                       nextTimer := nextTimer s2 + 1\<rparr>))))"

text \<open>The whole of \<^verbatim>\<open>startRecording\<close> when nothing else runs while the request is pending.\<close>

definition startRecording :: "start_env \<Rightarrow> AudioRecorder \<Rightarrow> AudioRecorder" where
  "startRecording env s = startRecording_resume env (startRecording_request s)"

subsection \<open>Stopping, errors, the timer, reset and teardown\<close>

text \<open>
  Timer handles are positive integers on the platform, so a held handle is truthy;
  \<open>None\<close> is \<^verbatim>\<open>null\<close>.
\<close>

definition stopRecording :: "AudioRecorder \<Rightarrow> AudioRecorder" where
  "stopRecording s =
     (case mediaRecorderRef s of
        None \<Rightarrow> s
      | Some r \<Rightarrow>
          if isRecording s then
            let s1 = (case timerRef s of
                        None \<Rightarrow> s
                      | Some t \<Rightarrow> s\<lparr>activeTimers := activeTimers s - {t}, timerRef := None\<rparr>);
                s2 = s1\<lparr>isRecording := False\<rparr>
            in if rec_state r = recording
               then s2\<lparr>mediaRecorderRef := Some (r\<lparr>rec_state := inactive\<rparr>)\<rparr>
               else s2
          else s)"

definition onerror :: "AudioRecorder \<Rightarrow> AudioRecorder" where
  "onerror s = s\<lparr>error := ''Recording error occurred. Please try again.'', isRecording := False\<rparr>"

text \<open>The interval callback of timer \<open>t\<close>; a cleared timer no longer fires.\<close>

definition tick :: "nat \<Rightarrow> AudioRecorder \<Rightarrow> AudioRecorder" where
  "tick t s = (if t \<in> activeTimers s then s\<lparr>recordingTime := recordingTime s + 1\<rparr> else s)"

definition resetRecording :: "AudioRecorder \<Rightarrow> AudioRecorder" where
  "resetRecording s =
     s\<lparr>audioBlob := None,
       revokedUrls := (if audioUrl s \<noteq> [] then insert (audioUrl s) (revokedUrls s) else revokedUrls s),
       audioUrl := [],
       recordingTime := 0,
       error := [],
       audioChunksRef := []\<rparr>"

text \<open>
  The cleanup function returned by the effect. It closes over the \<^verbatim>\<open>audioUrl\<close> of the
  render that installed it (the argument \<open>url\<close>) and reads the refs when it runs. It
  calls \<^verbatim>\<open>clearInterval\<close>, \<^verbatim>\<open>revokeObjectURL\<close> and \<^verbatim>\<open>track.stop()\<close> and assigns nothing.
\<close>

definition effect_cleanup :: "string \<Rightarrow> AudioRecorder \<Rightarrow> AudioRecorder" where
  "effect_cleanup url s =
     (let s1 = (case timerRef s of
                  None \<Rightarrow> s
                | Some t \<Rightarrow> s\<lparr>activeTimers := activeTimers s - {t}\<rparr>);
          s2 = (if url \<noteq> [] then s1\<lparr>revokedUrls := insert url (revokedUrls s1)\<rparr> else s1)
      in case streamRef s2 of
           None \<Rightarrow> s2
         | Some stream \<Rightarrow>
             s2\<lparr>stoppedTracks := stoppedTracks s2 \<union> set (map track_id (getTracks stream))\<rparr>)"

text \<open>Teardown of the component runs the cleanup of the last render.\<close>

definition unmount :: "AudioRecorder \<Rightarrow> AudioRecorder" where
  "unmount s = effect_cleanup (audioUrl s) s"

text \<open>
  The effect depends on \<^verbatim>\<open>audioUrl\<close>: after a handler that changed it, the cleanup of the
  previous render runs before the effect is installed again.
\<close>

definition commit :: "AudioRecorder \<Rightarrow> AudioRecorder \<Rightarrow> AudioRecorder" where
  "commit old new = (if audioUrl new \<noteq> audioUrl old then effect_cleanup (audioUrl old) new else new)"

subsection \<open>The view\<close>

text \<open>Which controls the component renders, and what a click on each delivers.\<close>

definition start_button :: "AudioRecorder \<Rightarrow> bool" where
  "start_button s \<longleftrightarrow> isSupported s \<and> \<not> isRecording s \<and> audioBlob s = None"

definition stop_button :: "AudioRecorder \<Rightarrow> bool" where
  "stop_button s \<longleftrightarrow> isSupported s \<and> isRecording s"

definition preview :: "AudioRecorder \<Rightarrow> bool" where
  "preview s \<longleftrightarrow> isSupported s \<and> audioBlob s \<noteq> None \<and> audioUrl s \<noteq> []"

definition click_start :: "AudioRecorder \<Rightarrow> AudioRecorder" where
  "click_start s = (if start_button s then startRecording_request s else s)"

definition click_stop :: "AudioRecorder \<Rightarrow> AudioRecorder" where
  "click_stop s = (if stop_button s then stopRecording s else s)"

definition click_reset :: "AudioRecorder \<Rightarrow> AudioRecorder" where
  "click_reset s = (if preview s then commit s (resetRecording s) else s)"

text \<open>\<^verbatim>\<open>handleUpload\<close> hands the artifact, if there is one, to \<^verbatim>\<open>onRecordingComplete\<close>.\<close>

definition handleUpload :: "AudioRecorder \<Rightarrow> Blob option" where
  "handleUpload s = audioBlob s"

subsection \<open>The session state the fields encode\<close>

text \<open>
  The component keeps no state enumeration; the view decides what the user sees. The
  recording panel is rendered while \<^verbatim>\<open>isRecording\<close>, the preview while an artifact is
  held, and without either the start control, under the error message if there is one.
  No cell records that a device request is pending: that is a fact of the platform.
\<close>

datatype session = Idle | Recording | Stopped | Error

definition session_state :: "AudioRecorder \<Rightarrow> session" where
  "session_state s =
     (if isRecording s then Recording
      else if audioBlob s \<noteq> None then Stopped
      else if error s \<noteq> [] then Error
      else Idle)"


section \<open>Identities and the recordings query\<close>

text \<open>
  The identity supplied by the auth collaborator (its \<^verbatim>\<open>id\<close> is the field \<open>uid\<close>; the
  \<^verbatim>\<open>email\<close> may be absent) and a row of \<^verbatim>\<open>recording_logs\<close> as the client writes it.
\<close>

record User =
  uid :: string
  email :: "string option"

record RecordingLog =
  candidate_name :: string
  question_label :: string
  question_position :: "int option"
  file_url :: string
  user_id :: "string option"

text \<open>\<^verbatim>\<open>user?.email === 'banuweb3@gmail.com'\<close>\<close>

definition isAdmin :: "User option \<Rightarrow> bool" where
  "isAdmin user = (case user of None \<Rightarrow> False | Some u \<Rightarrow> email u = Some ''banuweb3@gmail.com'')"

text \<open>A query under construction: table, selected columns, equality filters, ordering.\<close>

record Query =
  from_table :: string
  select_columns :: string
  eq_filters :: "(string \<times> string) list"
  order_by :: "(string \<times> bool) option"

definition query_eq :: "string \<Rightarrow> string \<Rightarrow> Query \<Rightarrow> Query" where
  "query_eq column val q = q\<lparr>eq_filters := eq_filters q @ [(column, val)]\<rparr>"

definition query_order :: "string \<Rightarrow> bool \<Rightarrow> Query \<Rightarrow> Query" where
  "query_order column ascending q = q\<lparr>order_by := Some (column, ascending)\<rparr>"

text \<open>The query \<^verbatim>\<open>fetchRecordings\<close> sends for the identity it was rendered with.\<close>

definition fetchRecordings_query :: "User \<Rightarrow> Query" where
  "fetchRecordings_query user =
     (let query = \<lparr>from_table = ''recording_logs'', select_columns = ''*'',
                   eq_filters = [], order_by = None\<rparr>;
          query' = (if \<not> isAdmin (Some user) then query_eq ''user_id'' (uid user) query else query)
      in query_order ''created_at'' False query')"

section \<open>The upload workflow (App)\<close>

text \<open>
  \<^verbatim>\<open>String.prototype.trim\<close> for strings of code units below 256: it strips the white
  space and line terminators of that range (tab, line feed, vertical tab, form feed,
  carriage return, space, no-break space) from both ends.
\<close>

definition is_space :: "char \<Rightarrow> bool" where
  "is_space c \<longleftrightarrow>
     c \<in> set [CHR 0x09, CHR 0x0A, CHR 0x0B, CHR 0x0C, CHR 0x0D, CHR 0x20, CHR 0xA0]"

definition trim :: "string \<Rightarrow> string" where
  "trim str = rev (dropWhile is_space (rev (dropWhile is_space str)))"

text \<open>
  The form state of \<^verbatim>\<open>App\<close>, followed by what the workflow has done to its
  collaborators: the storage uploads and table inserts it has called, and the timeouts
  it has scheduled.
\<close>

record App =
  user :: "User option"
  candidateName :: string
  questionLabel :: string
  questionPosition :: int
  isUploading :: bool
  uploadSuccess :: bool
  uploadError :: string
  upload_calls :: "(string \<times> Blob) list"
  insert_calls :: "RecordingLog list"
  timeouts_scheduled :: nat

text \<open>
  What the collaborators answer during one run of \<^verbatim>\<open>handleRecordingComplete\<close>: the
  identifier from \<^verbatim>\<open>uuidv4\<close>, the error of the upload (if any), the public URL, and the
  error of the insert (if any).
\<close>

record upload_env =
  uuidv4 :: string
  upload_error :: "thrown option"
  publicUrl :: string
  db_error :: "thrown option"

text \<open>The \<^verbatim>\<open>catch\<close> and \<^verbatim>\<open>finally\<close> blocks of \<^verbatim>\<open>handleRecordingComplete\<close>.\<close>

definition upload_catch :: "thrown \<Rightarrow> App \<Rightarrow> App" where
  "upload_catch e a =
     a\<lparr>uploadError := (case e of ErrorObj name message \<Rightarrow> message
                                | NonError \<Rightarrow> ''Failed to upload recording'')\<rparr>"

definition upload_finally :: "App \<Rightarrow> App" where
  "upload_finally a = a\<lparr>isUploading := False\<rparr>"

text \<open>
  \<^verbatim>\<open>handleRecordingComplete\<close>. The names and the position it reads are those of the
  render in which it was called.
\<close>

definition handleRecordingComplete :: "upload_env \<Rightarrow> Blob \<Rightarrow> App \<Rightarrow> App" where
  "handleRecordingComplete env blob a =
     (if trim (candidateName a) = [] then a\<lparr>uploadError := ''Please enter candidate name''\<rparr>
      else if trim (questionLabel a) = [] then a\<lparr>uploadError := ''Please enter question label''\<rparr>
      else
        let a1 = a\<lparr>isUploading := True, uploadError := [], uploadSuccess := False\<rparr>;
            fileName = uuidv4 env @ ''.wav'';
            filePath = ''recordings/'' @ trim (candidateName a) @ ''/'' @ fileName;
            wavBlob = new_Blob [blob] ''audio/wav'';
            a2 = a1\<lparr>upload_calls := upload_calls a1 @ [(filePath, wavBlob)]\<rparr>
        in
         (case upload_error env of
            Some e \<Rightarrow> upload_finally (upload_catch e a2)
          | None \<Rightarrow>
             (let recordingData =
                    \<lparr>candidate_name = trim (candidateName a),
                     question_label = trim (questionLabel a),
                     question_position = Some (questionPosition a),
                     file_url = publicUrl env,
                     user_id = map_option uid (user a)\<rparr>;
                  a3 = a2\<lparr>insert_calls := insert_calls a2 @ [recordingData]\<rparr>
              in
               (case db_error env of
                  Some e \<Rightarrow> upload_finally (upload_catch e a3)
                | None \<Rightarrow>
                    upload_finally
                      (a3\<lparr>uploadSuccess := True,
                          candidateName := [],
                          questionLabel := [],
                          questionPosition := 1,
                          timeouts_scheduled := timeouts_scheduled a3 + 1\<rparr>)))))"

text \<open>
  The page: the form and the recorder side by side. The upload control is rendered with
  the preview and disabled while an upload is running; a click hands the artifact to the
  workflow, which has no access to the recorder's state.
\<close>

definition click_upload :: "upload_env \<Rightarrow> App \<times> AudioRecorder \<Rightarrow> App \<times> AudioRecorder" where
  "click_upload env page =
     (case page of (a, s) \<Rightarrow>
        if preview s \<and> \<not> isUploading a
        then (case handleUpload s of
                None \<Rightarrow> (a, s)
              | Some blob \<Rightarrow> (handleRecordingComplete env blob a, s))
        else (a, s))"

section \<open>Example sessions\<close>

text \<open>
  A microphone stream with one audio track, a platform that supports only
  \<^verbatim>\<open>audio/mp4\<close> and grants every request, and three fragments of 10, 0 and 20 bytes.
\<close>

definition mic_stream :: MediaStream where
  "mic_stream = \<lparr>getTracks = [\<lparr>track_id = 1, kind = ''audio''\<rparr>]\<rparr>"

definition safari_env :: start_env where
  "safari_env = \<lparr>getUserMedia = Inr mic_stream,
     isTypeSupported = (\<lambda>ty. ty = ''audio/mp4''),
     construct_with_mimeType = None, construct_without_options = None, start_call = None\<rparr>"

definition fragments_10_0_20 :: "Blob list" where
  "fragments_10_0_20 =
     [\<lparr>blob_data = replicate 10 1, blob_type = ''audio/mp4''\<rparr>,
      \<lparr>blob_data = [], blob_type = ''audio/mp4''\<rparr>,
      \<lparr>blob_data = replicate 20 2, blob_type = ''audio/mp4''\<rparr>]"

text \<open>The same platform after three fragments have arrived.\<close>

definition recording_session :: AudioRecorder where
  "recording_session = deliver fragments_10_0_20 (startRecording safari_env initial)"

text \<open>A platform that grants the microphone but whose recorder rejects the stream.\<close>

definition recorder_unsupported_env :: start_env where
  "recorder_unsupported_env = \<lparr>getUserMedia = Inr mic_stream,
     isTypeSupported = (\<lambda>ty. False),
     construct_with_mimeType = Some (ErrorObj ''NotSupportedError'' ''mimeType is not supported''),
     construct_without_options = Some (ErrorObj ''NotSupportedError'' ''stream is not supported''),
     start_call = None\<rparr>"

text \<open>
  Two finished sessions: one stopped at once, before any fragment arrived, and one stopped
  after the three fragments. A fragment that carries no type.
\<close>

definition empty_finalization :: AudioRecorder where
  "empty_finalization = onstop ''1'' (stopRecording (startRecording safari_env initial))"

definition stopped_session :: AudioRecorder where
  "stopped_session = onstop ''1'' (stopRecording recording_session)"

definition untyped_fragment :: Blob where
  "untyped_fragment = \<lparr>blob_data = [1], blob_type = []\<rparr>"

text \<open>
  A filled form, the collaborators answering without error, an artifact recorded as
  \<^verbatim>\<open>audio/mp4\<close>, and two identities.
\<close>

definition ada :: User where
  "ada = \<lparr>uid = ''u1'', email = Some ''ada@example.org''\<rparr>"

definition admin :: User where
  "admin = \<lparr>uid = ''u0'', email = Some ''banuweb3@gmail.com''\<rparr>"

definition form_filled :: App where
  "form_filled = \<lparr>user = Some ada, candidateName = '' Ada '', questionLabel = ''Q1'',
     questionPosition = 3, isUploading = False, uploadSuccess = False, uploadError = [],
     upload_calls = [], insert_calls = [], timeouts_scheduled = 0\<rparr>"

definition upload_ok :: upload_env where
  "upload_ok = \<lparr>uuidv4 = ''abc'', upload_error = None,
     publicUrl = ''https://storage.example/recordings/Ada/abc.wav'', db_error = None\<rparr>"

definition mp4_artifact :: Blob where
  "mp4_artifact = \<lparr>blob_data = [1, 2, 3], blob_type = ''audio/mp4''\<rparr>"

text \<open>
  A second platform answer, granting a second stream, and the session in which the start
  control was clicked twice before either request settled and both were then granted.
\<close>

definition second_env :: start_env where
  "second_env = \<lparr>getUserMedia = Inr \<lparr>getTracks = [\<lparr>track_id = 2, kind = ''audio''\<rparr>]\<rparr>,
     isTypeSupported = (\<lambda>ty. ty = ''audio/mp4''),
     construct_with_mimeType = None, construct_without_options = None, start_call = None\<rparr>"

definition double_start :: AudioRecorder where
  "double_start =
     startRecording_resume second_env
       (startRecording_resume safari_env (click_start (click_start initial)))"

section \<open>Facts about the handlers\<close>

text \<open>
  Sizes add up: the fold of the stop handler is the sum of the chunk sizes, which is the
  size of the assembled blob, and it is positive exactly when some chunk is non-empty.
\<close>

lemma totalSize_from: "foldl (\<lambda>sum chunk. sum + blob_size chunk) n chunks
    = n + sum_list (map blob_size chunks)"
  by (induction chunks arbitrary: n) simp_all

lemma totalSize_sum: "totalSize chunks = sum_list (map blob_size chunks)"
  by (simp add: totalSize_def totalSize_from)

lemma blob_size_new_Blob: "blob_size (new_Blob parts ty) = totalSize parts"
  by (induction parts) (simp_all add: blob_size_def new_Blob_def totalSize_sum)

lemma totalSize_positive_iff: "0 < totalSize chunks \<longleftrightarrow> (\<exists>c \<in> set chunks. 0 < blob_size c)"
  by (induction chunks) (auto simp: totalSize_sum)

lemma sum_filter_positive:
  "sum_list (map blob_size (filter (\<lambda>f. 0 < blob_size f) frags)) = sum_list (map blob_size frags)"
  by (induction frags) simp_all

lemma kept_total:
  assumes "filter (\<lambda>f. 0 < blob_size f) frags \<noteq> []"
  shows "0 < totalSize (filter (\<lambda>f. 0 < blob_size f) frags)"
proof -
  from assms obtain c where "c \<in> set (filter (\<lambda>f. 0 < blob_size f) frags)"
    by (cases "filter (\<lambda>f. 0 < blob_size f) frags") auto
  then show ?thesis unfolding totalSize_positive_iff by auto
qed

text \<open>
  What the recorder handlers do to the chunk buffer, the error message and the artifact.
\<close>

lemma deliver_chunks:
  "audioChunksRef (deliver frags s) = audioChunksRef s @ filter (\<lambda>f. 0 < blob_size f) frags"
  unfolding deliver_def
  by (induction frags arbitrary: s) (simp_all add: ondataavailable_def)

lemma deliver_error: "error (deliver frags s) = error s"
  unfolding deliver_def
  by (induction frags arbitrary: s) (simp_all add: ondataavailable_def)

lemmas start_simps = startRecording_def startRecording_resume_def startRecording_request_def
  catch_block_def construct_recorder_def getAudioTracks_def Let_def

lemma startRecording_started:
  assumes "isRecording (startRecording env s0)"
  shows "audioChunksRef (startRecording env s0) = []"
  using assms
  by (auto simp: start_simps split: sum.splits option.splits if_splits)

lemma stopRecording_chunks: "audioChunksRef (stopRecording s) = audioChunksRef s"
  by (simp add: stopRecording_def Let_def split: option.splits)

lemma stopRecording_error: "error (stopRecording s) = error s"
  by (simp add: stopRecording_def Let_def split: option.splits)

lemma deliver_fields:
  "isRecording (deliver frags s) = isRecording s" "audioBlob (deliver frags s) = audioBlob s"
  "mediaRecorderRef (deliver frags s) = mediaRecorderRef s"
  unfolding deliver_def
  by (induction frags arbitrary: s; simp add: ondataavailable_def)+

lemma stopRecording_artifact: "audioBlob (stopRecording s) = audioBlob s"
  by (simp add: stopRecording_def Let_def split: option.splits)

lemma startRecording_success:
  assumes "isRecording (startRecording env s0)"
  shows "mediaRecorderRef (startRecording env s0) \<noteq> None"
    and "audioBlob (startRecording env s0) = audioBlob s0"
  using assms
  by (auto simp: start_simps split: sum.splits option.splits if_splits)

lemma stopRecording_flag: "mediaRecorderRef s \<noteq> None \<Longrightarrow> \<not> isRecording (stopRecording s)"
  by (auto simp: stopRecording_def Let_def split: option.splits)

lemma cleanup_stream_fields:
  "audioBlob (cleanup_stream s) = audioBlob s" "error (cleanup_stream s) = error s"
  "audioChunksRef (cleanup_stream s) = audioChunksRef s" "audioUrl (cleanup_stream s) = audioUrl s"
  "isRecording (cleanup_stream s) = isRecording s"
  by (simp_all add: cleanup_stream_def split: option.splits)

lemma onstop_artifact:
  assumes "0 < totalSize (audioChunksRef s)"
  shows "audioBlob (onstop u s) = Some (new_Blob (audioChunksRef s) (firstChunkType (audioChunksRef s)))"
proof -
  from assms have "audioChunksRef s \<noteq> []" by (auto simp: totalSize_def)
  with assms show ?thesis
    by (simp add: onstop_def Let_def cleanup_stream_fields blob_size_new_Blob)
qed

lemma onstop_no_chunks:
  "audioChunksRef s = [] \<Longrightarrow> onstop u s = s\<lparr>error := ''No audio data was recorded. Please try again.''\<rparr>"
  by (simp add: onstop_def)

lemma onstop_zero_total:
  "audioChunksRef s \<noteq> [] \<Longrightarrow> totalSize (audioChunksRef s) = 0 \<Longrightarrow>
   onstop u s = s\<lparr>error := ''Recorded audio file is empty. Please check your microphone and try again.''\<rparr>"
  by (simp add: onstop_def)

lemma onstop_isRecording: "isRecording (onstop u s) = isRecording s"
  by (simp add: onstop_def Let_def cleanup_stream_fields)

lemma errorMessage_prefix: "take 5 (errorMessage e) = ''Error''"
  by (simp add: errorMessage_def)

text \<open>
  What the effect cleanup does to the platform, and that it assigns no cell of the component.
\<close>

lemma effect_cleanup_sets:
  "stoppedTracks (effect_cleanup url s) =
     (case streamRef s of None \<Rightarrow> stoppedTracks s
      | Some stream \<Rightarrow> stoppedTracks s \<union> track_id ` set (getTracks stream))"
  "activeTimers (effect_cleanup url s) =
     (case timerRef s of None \<Rightarrow> activeTimers s | Some t \<Rightarrow> activeTimers s - {t})"
  "revokedUrls (effect_cleanup url s) =
     (if url \<noteq> [] then insert url (revokedUrls s) else revokedUrls s)"
  by (cases "timerRef s"; cases "streamRef s"; simp add: effect_cleanup_def Let_def)+

lemma effect_cleanup_cells:
  "effect_cleanup url s =
     s\<lparr>stoppedTracks := stoppedTracks (effect_cleanup url s),
       activeTimers := activeTimers (effect_cleanup url s),
       revokedUrls := revokedUrls (effect_cleanup url s)\<rparr>"
  by (cases "timerRef s"; cases "streamRef s"; cases "url = []")
    (simp_all add: effect_cleanup_def Let_def)

lemma effect_cleanup_fields:
  "isRecording (effect_cleanup url s) = isRecording s" "audioBlob (effect_cleanup url s) = audioBlob s"
  "recordingTime (effect_cleanup url s) = recordingTime s" "audioUrl (effect_cleanup url s) = audioUrl s"
  "error (effect_cleanup url s) = error s" "audioChunksRef (effect_cleanup url s) = audioChunksRef s"
  by (cases "timerRef s"; cases "streamRef s"; cases "url = []";
      simp add: effect_cleanup_def Let_def)+

lemma effect_cleanup_twice: "effect_cleanup url (effect_cleanup url s) = effect_cleanup url s"
  by (cases "timerRef s"; cases "streamRef s"; cases "url = []")
    (simp_all add: effect_cleanup_def Let_def)

lemma commit_cells:
  "isRecording (commit old new) = isRecording new" "audioBlob (commit old new) = audioBlob new"
  "recordingTime (commit old new) = recordingTime new" "audioUrl (commit old new) = audioUrl new"
  "error (commit old new) = error new" "audioChunksRef (commit old new) = audioChunksRef new"
  by (simp_all add: commit_def effect_cleanup_fields)

lemma commit_revoked: "revokedUrls new \<subseteq> revokedUrls (commit old new)"
  by (auto simp: commit_def effect_cleanup_sets)

section \<open>The example sessions, evaluated\<close>

lemmas example_simps = safari_env_def mic_stream_def initial_def fragments_10_0_20_def
  recording_session_def deliver_def ondataavailable_def blob_size_def

lemma safari_started: "isRecording (startRecording safari_env initial)"
  by (simp add: start_simps example_simps)

lemma recording_session_eq:
  "recording_session =
     \<lparr>isRecording = True, audioBlob = None, recordingTime = 0, audioUrl = [], error = [],
      isSupported = True,
      mediaRecorderRef = Some \<lparr>rec_stream = mic_stream, rec_mimeType = Some ''audio/mp4'',
                                rec_state = recording\<rparr>,
      audioChunksRef = [\<lparr>blob_data = replicate 10 1, blob_type = ''audio/mp4''\<rparr>,
                        \<lparr>blob_data = replicate 20 2, blob_type = ''audio/mp4''\<rparr>],
      timerRef = Some 1, streamRef = Some mic_stream, requestsIssued = 1, requestsSettled = 1,
      stoppedTracks = {}, activeTimers = {1}, nextTimer = 2, revokedUrls = {}\<rparr>"
  by (simp add: start_simps example_simps getSupportedMimeType_def types_def)

lemma stopped_immediately:
  "\<not> isRecording (stopRecording (startRecording safari_env initial)) \<and>
   audioBlob (stopRecording (startRecording safari_env initial)) = None \<and>
   audioChunksRef (stopRecording (startRecording safari_env initial)) = []"
  by (simp add: start_simps example_simps stopRecording_def)

lemma empty_finalization_eq:
  "empty_finalization =
     \<lparr>isRecording = False, audioBlob = None, recordingTime = 0, audioUrl = [],
      error = ''No audio data was recorded. Please try again.'',
      isSupported = True,
      mediaRecorderRef = Some \<lparr>rec_stream = mic_stream, rec_mimeType = Some ''audio/mp4'',
                                rec_state = inactive\<rparr>,
      audioChunksRef = [], timerRef = None, streamRef = Some mic_stream,
      requestsIssued = 1, requestsSettled = 1,
      stoppedTracks = {}, activeTimers = {}, nextTimer = 2, revokedUrls = {}\<rparr>"
  by (simp add: empty_finalization_def start_simps example_simps getSupportedMimeType_def
      types_def stopRecording_def onstop_def)

lemma stopped_session_eq:
  "stopped_session =
     \<lparr>isRecording = False,
      audioBlob = Some \<lparr>blob_data = replicate 10 1 @ replicate 20 2, blob_type = ''audio/mp4''\<rparr>,
      recordingTime = 0, audioUrl = ''blob:1'', error = [],
      isSupported = True,
      mediaRecorderRef = Some \<lparr>rec_stream = mic_stream, rec_mimeType = Some ''audio/mp4'',
                                rec_state = inactive\<rparr>,
      audioChunksRef = [\<lparr>blob_data = replicate 10 1, blob_type = ''audio/mp4''\<rparr>,
                        \<lparr>blob_data = replicate 20 2, blob_type = ''audio/mp4''\<rparr>],
      timerRef = None, streamRef = None,
      requestsIssued = 1, requestsSettled = 1,
      stoppedTracks = {1}, activeTimers = {}, nextTimer = 2, revokedUrls = {}\<rparr>"
  unfolding stopped_session_def recording_session_eq
  by (simp add: stopRecording_def onstop_def totalSize_def blob_size_def new_Blob_def
      firstChunkType_def createObjectURL_def cleanup_stream_def mic_stream_def Let_def)

lemma trim_examples:
  "trim '' Ada '' = ''Ada''" "trim ''Q1'' = ''Q1''" "trim ''   '' = []" "trim [] = []"
  by (simp_all add: trim_def is_space_def)

section \<open>Chunk accumulation and assembly\<close>

text \<open>
  C1. After a successful start, let fragments arrive before and after the stop request and
  let finalization follow. The chunk buffer then holds exactly the non-empty fragments in
  emission order, no fragment (empty or not) touches the error message, and when at least
  one fragment is non-empty the artifact's bytes are the concatenation of the non-empty
  fragments in that order, its size the sum of all fragment sizes.
\<close>

theorem artifact_is_concatenation:
  assumes "isRecording (startRecording env s0)"
  shows "let s = startRecording env s0;
             frags = frags1 @ frags2;
             kept = filter (\<lambda>f. 0 < blob_size f) frags;
             s' = deliver frags2 (stopRecording (deliver frags1 s))
         in audioChunksRef s' = kept \<and> error s' = error s \<and>
            (kept \<noteq> [] \<longrightarrow>
               (\<exists>b. audioBlob (onstop u s') = Some b \<and>
                    blob_data b = concat (map blob_data kept) \<and>
                    blob_size b = sum_list (map blob_size frags)))"
proof -
  define s where "s = startRecording env s0"
  define s' where "s' = deliver frags2 (stopRecording (deliver frags1 s))"
  define kept where "kept = filter (\<lambda>f. 0 < blob_size f) (frags1 @ frags2)"
  have empty: "audioChunksRef s = []"
    unfolding s_def using assms by (rule startRecording_started)
  have chunks: "audioChunksRef s' = kept"
    by (simp add: s'_def kept_def deliver_chunks stopRecording_chunks empty)
  have err: "error s' = error s"
    by (simp add: s'_def deliver_error stopRecording_error)
  have art: "\<exists>b. audioBlob (onstop u s') = Some b \<and>
                blob_data b = concat (map blob_data kept) \<and>
                blob_size b = sum_list (map blob_size (frags1 @ frags2))" if "kept \<noteq> []"
  proof -
    from that have "0 < totalSize (audioChunksRef s')"
      unfolding chunks kept_def by (rule kept_total)
    then have "audioBlob (onstop u s') = Some (new_Blob kept (firstChunkType kept))"
      using onstop_artifact [of s' u] by (simp add: chunks)
    moreover have "blob_data (new_Blob kept (firstChunkType kept)) = concat (map blob_data kept)"
      by (simp add: new_Blob_def)
    moreover have "blob_size (new_Blob kept (firstChunkType kept))
        = sum_list (map blob_size (frags1 @ frags2))"
      unfolding blob_size_new_Blob totalSize_sum kept_def by (rule sum_filter_positive)
    ultimately show ?thesis by simp
  qed
  show ?thesis
    using chunks err art unfolding Let_def s_def s'_def kept_def by blast
qed

text \<open>Fragments of 10, 0 and 20 bytes give an artifact of 30 bytes, the empty one skipped.\<close>

theorem artifact_10_0_20:
  "isRecording (startRecording safari_env initial) \<and>
   (\<exists>b. audioBlob (onstop ''1'' (deliver [] (stopRecording
            (deliver fragments_10_0_20 (startRecording safari_env initial))))) = Some b \<and>
     blob_data b = replicate 10 1 @ replicate 20 2 \<and> blob_size b = 30)"
  using artifact_is_concatenation [OF safari_started, of fragments_10_0_20 "[]" "''1''"]
    safari_started
  by (simp add: Let_def fragments_10_0_20_def blob_size_def)

section \<open>Finalization without audio\<close>

text \<open>
  A session started from the start control and stopped by \<^verbatim>\<open>stopRecording\<close> reaches
  finalization with the recording flag off and without an artifact.
\<close>

lemma finalization_after_stop:
  assumes "start_button s0" and "isRecording (startRecording env s0)"
  shows "\<not> isRecording (deliver frags2 (stopRecording (deliver frags1 (startRecording env s0))))"
    and "audioBlob (deliver frags2 (stopRecording (deliver frags1 (startRecording env s0)))) = None"
proof -
  from assms(1) have "audioBlob s0 = None" by (simp add: start_button_def)
  with startRecording_success(2) [OF assms(2)]
  show "audioBlob (deliver frags2 (stopRecording (deliver frags1 (startRecording env s0)))) = None"
    by (simp add: deliver_fields stopRecording_artifact)
  from startRecording_success(1) [OF assms(2)]
  have "mediaRecorderRef (deliver frags1 (startRecording env s0)) \<noteq> None"
    by (simp add: deliver_fields)
  then have "\<not> isRecording (stopRecording (deliver frags1 (startRecording env s0)))"
    by (rule stopRecording_flag)
  then show "\<not> isRecording (deliver frags2 (stopRecording (deliver frags1 (startRecording env s0))))"
    by (simp add: deliver_fields)
qed

text \<open>
  C2. Let finalization run after the stop request (the recording flag is off) in a session
  that holds no earlier artifact. With no chunks, or chunks of total size zero, it ends in
  the error state with one of the two messages kept for an empty recording, which differ
  from every message of a failed start and from the recorder's error message, and it
  produces no artifact. With chunks of positive total size it ends in the stopped state
  with an artifact. An artifact exists afterwards exactly when the session is stopped and
  the chunks are non-empty with a positive total size, and an artifact is never empty.
\<close>

theorem onstop_empty_recording:
  assumes "\<not> isRecording s" and "audioBlob s = None"
  shows "((audioChunksRef s = [] \<or> totalSize (audioChunksRef s) = 0) \<longrightarrow>
            session_state (onstop u s) = Error \<and> audioBlob (onstop u s) = None \<and>
            (error (onstop u s) = ''No audio data was recorded. Please try again.'' \<or>
             error (onstop u s) =
               ''Recorded audio file is empty. Please check your microphone and try again.'') \<and>
            (\<forall>e. error (onstop u s) \<noteq> errorMessage e) \<and>
            error (onstop u s) \<noteq> error (onerror s)) \<and>
         (0 < totalSize (audioChunksRef s) \<longrightarrow>
            session_state (onstop u s) = Stopped \<and> (\<exists>b. audioBlob (onstop u s) = Some b)) \<and>
         ((\<exists>b. audioBlob (onstop u s) = Some b) \<longleftrightarrow>
            session_state (onstop u s) = Stopped \<and> audioChunksRef s \<noteq> [] \<and>
            0 < totalSize (audioChunksRef s)) \<and>
         (\<forall>b. audioBlob (onstop u s) = Some b \<longrightarrow> 0 < blob_size b)"
proof -
  let ?msgs = "{''No audio data was recorded. Please try again.'',
     ''Recorded audio file is empty. Please check your microphone and try again.''}"
  have distinct: "m \<noteq> errorMessage e" if "m \<in> ?msgs" for m e
  proof
    assume "m = errorMessage e"
    then have "take 5 m = ''Error''" by (simp add: errorMessage_prefix)
    with that show False by auto
  qed
  have empty: "session_state (onstop u s) = Error \<and> audioBlob (onstop u s) = None \<and>
      error (onstop u s) \<in> ?msgs \<and> error (onstop u s) \<noteq> error (onerror s)"
    if "audioChunksRef s = [] \<or> totalSize (audioChunksRef s) = 0"
  proof (cases "audioChunksRef s = []")
    case True
    then show ?thesis
      using assms by (simp add: onstop_no_chunks session_state_def onerror_def)
  next
    case False
    with that have "totalSize (audioChunksRef s) = 0" by simp
    with False show ?thesis
      using assms by (simp add: onstop_zero_total session_state_def onerror_def)
  qed
  have full: "audioBlob (onstop u s)
      = Some (new_Blob (audioChunksRef s) (firstChunkType (audioChunksRef s)))"
    if "0 < totalSize (audioChunksRef s)"
    using that by (rule onstop_artifact)
  have stopped: "session_state (onstop u s) = Stopped" if "0 < totalSize (audioChunksRef s)"
    using full [OF that] assms by (simp add: session_state_def onstop_isRecording)
  have nonempty: "audioChunksRef s \<noteq> []" if "0 < totalSize (audioChunksRef s)"
    using that by (auto simp: totalSize_def)
  have positive: "0 < blob_size b" if "audioBlob (onstop u s) = Some b" for b
  proof (cases "0 < totalSize (audioChunksRef s)")
    case True
    with full that show ?thesis by (simp add: blob_size_new_Blob)
  next
    case False
    then have "audioChunksRef s = [] \<or> totalSize (audioChunksRef s) = 0" by simp
    from empty [OF this] that show ?thesis by simp
  qed
  have iff: "(\<exists>b. audioBlob (onstop u s) = Some b) \<longleftrightarrow>
            session_state (onstop u s) = Stopped \<and> audioChunksRef s \<noteq> [] \<and>
            0 < totalSize (audioChunksRef s)"
  proof (cases "0 < totalSize (audioChunksRef s)")
    case True
    with full stopped nonempty show ?thesis by simp
  next
    case False
    then have "audioChunksRef s = [] \<or> totalSize (audioChunksRef s) = 0" by simp
    from empty [OF this] False show ?thesis by simp
  qed
  have made: "0 < totalSize (audioChunksRef s) \<longrightarrow>
      session_state (onstop u s) = Stopped \<and> (\<exists>b. audioBlob (onstop u s) = Some b)"
    using full stopped by simp
  show ?thesis
    using empty distinct made iff positive by blast
qed

text \<open>
  Stopping at once, before any fragment arrives, ends in the error state without an
  artifact; stopping after the three fragments ends in the stopped state with one.
\<close>

theorem stop_at_once_is_empty_recording:
  "\<not> isRecording (stopRecording (startRecording safari_env initial)) \<and>
   audioBlob (stopRecording (startRecording safari_env initial)) = None \<and>
   audioChunksRef (stopRecording (startRecording safari_env initial)) = [] \<and>
   session_state (onstop ''1'' (stopRecording (startRecording safari_env initial))) = Error \<and>
   audioBlob (onstop ''1'' (stopRecording (startRecording safari_env initial))) = None \<and>
   \<not> isRecording (stopRecording recording_session) \<and>
   audioBlob (stopRecording recording_session) = None \<and>
   0 < totalSize (audioChunksRef (stopRecording recording_session)) \<and>
   session_state (onstop ''1'' (stopRecording recording_session)) = Stopped \<and>
   (\<exists>b. audioBlob (onstop ''1'' (stopRecording recording_session)) = Some b)"
proof -
  have full: "\<not> isRecording (stopRecording recording_session) \<and>
      audioBlob (stopRecording recording_session) = None \<and>
      0 < totalSize (audioChunksRef (stopRecording recording_session))"
    unfolding recording_session_eq
    by (simp add: stopRecording_def totalSize_def blob_size_def Let_def)
  then have "audioChunksRef (stopRecording recording_session) \<noteq> []"
    by (auto simp: totalSize_def)
  with full onstop_empty_recording [of "stopRecording recording_session" "''1''"]
  have "session_state (onstop ''1'' (stopRecording recording_session)) = Stopped \<and>
      (\<exists>b. audioBlob (onstop ''1'' (stopRecording recording_session)) = Some b)"
    by blast
  moreover have "session_state (onstop ''1'' (stopRecording (startRecording safari_env initial))) = Error \<and>
      audioBlob (onstop ''1'' (stopRecording (startRecording safari_env initial))) = None"
    using onstop_empty_recording [of "stopRecording (startRecording safari_env initial)" "''1''"]
      stopped_immediately
    by simp
  ultimately show ?thesis
    using full stopped_immediately by blast
qed

section \<open>Start requests\<close>




text \<open>
  The statement above is silent on a start request made while an earlier one is pending.
  Traced on the example in which both requests are granted: the second continuation
  overwrites the stream, recorder and timer refs without releasing what they held, so
  through stop, finalization and teardown the first stream's track is never stopped and
  the first timer keeps running.
\<close>

lemma double_start_eq:
  "double_start =
     \<lparr>isRecording = True, audioBlob = None, recordingTime = 0, audioUrl = [], error = [],
      isSupported = True,
      mediaRecorderRef = Some \<lparr>rec_stream = \<lparr>getTracks = [\<lparr>track_id = 2, kind = ''audio''\<rparr>]\<rparr>,
                                rec_mimeType = Some ''audio/mp4'', rec_state = recording\<rparr>,
      audioChunksRef = [], timerRef = Some 2,
      streamRef = Some \<lparr>getTracks = [\<lparr>track_id = 2, kind = ''audio''\<rparr>]\<rparr>,
      requestsIssued = 2, requestsSettled = 2,
      stoppedTracks = {}, activeTimers = {2, 1}, nextTimer = 3, revokedUrls = {}\<rparr>"
  by (simp add: double_start_def second_env_def click_start_def start_button_def start_simps
      example_simps getSupportedMimeType_def types_def numeral_2_eq_2)

lemma second_start_overwrites_unreleased:
  "1 \<notin> stoppedTracks (unmount (onstop ''1'' (stopRecording (deliver fragments_10_0_20 double_start)))) \<and>
   1 \<in> activeTimers (unmount (onstop ''1'' (stopRecording (deliver fragments_10_0_20 double_start)))) \<and>
   streamRef (unmount (onstop ''1'' (stopRecording (deliver fragments_10_0_20 double_start)))) = None \<and>
   timerRef (unmount (onstop ''1'' (stopRecording (deliver fragments_10_0_20 double_start)))) = None"
  unfolding double_start_eq
  by (simp add: example_simps stopRecording_def onstop_def totalSize_def new_Blob_def
      firstChunkType_def createObjectURL_def cleanup_stream_def unmount_def effect_cleanup_def
      Let_def)

section \<open>Failed starts\<close>

text \<open>Every failed start ends with the recording flag off and a message of the catch block.\<close>

lemma startRecording_failure:
  assumes "\<not> isRecording (startRecording env s)"
  shows "\<exists>e. error (startRecording env s) = errorMessage e"
  using assms
  by (auto simp: start_simps split: sum.splits option.splits if_splits)

lemma startRecording_failure_state:
  assumes "\<not> isRecording (startRecording env s)" and "audioBlob s = None"
  shows "session_state (startRecording env s) = Error"
proof -
  from startRecording_failure [OF assms(1)] obtain e
    where "error (startRecording env s) = errorMessage e" ..
  then have "error (startRecording env s) \<noteq> []"
    by (simp add: errorMessage_def)
  moreover have "audioBlob (startRecording env s) = audioBlob s"
    by (auto simp: start_simps split: sum.splits option.splits)
  ultimately show ?thesis
    using assms by (simp add: session_state_def)
qed

text \<open>The four named conditions have four different messages.\<close>

lemma errorMessage_named_distinct:
  "distinct (map (\<lambda>name. errorMessage (ErrorObj name message))
     [''NotAllowedError'', ''NotFoundError'', ''NotSupportedError'', ''NotReadableError''])"
  by (simp add: errorMessage_def)

lemma errorMessage_unclassified:
  assumes "name \<notin> {''NotAllowedError'', ''NotFoundError'', ''NotSupportedError'', ''NotReadableError''}"
  shows "errorMessage (ErrorObj name message) = ''Error accessing microphone. '' @ message"
  using assms by (simp add: errorMessage_def)

text \<open>When the device request itself is refused, the stream ref is not assigned.\<close>

lemma startRecording_refused:
  assumes "getUserMedia env = Inl e"
  shows "streamRef (startRecording env s) = streamRef s"
    and "error (startRecording env s) = errorMessage e"
    and "\<not> isRecording (startRecording env s)"
  using assms by (simp_all add: start_simps)

text \<open>
  When the device request is granted and a later step fails, the catch block leaves the
  stream in the ref and stops none of its tracks.
\<close>

lemma startRecording_failure_after_grant:
  assumes "getUserMedia env = Inr stream" and "\<not> isRecording (startRecording env s)"
  shows "streamRef (startRecording env s) = Some stream"
    and "stoppedTracks (startRecording env s) = stoppedTracks s"
  using assms
  by (auto simp: start_simps split: sum.splits option.splits if_splits)

text \<open>
  C4 at a failing input: the microphone is granted and both recorder constructions throw
  \<^verbatim>\<open>NotSupportedError\<close>. The session ends with the message for an unsupported capability
  and the recording flag off, and the acquired stream is still held with its track live.
\<close>

theorem failed_start_keeps_stream:
  "error (startRecording recorder_unsupported_env initial) =
     ''Error accessing microphone. Audio recording is not supported in this browser.'' \<and>
   isRecording (startRecording recorder_unsupported_env initial) = False \<and>
   streamRef (startRecording recorder_unsupported_env initial) = Some mic_stream \<and>
   stoppedTracks (startRecording recorder_unsupported_env initial) = {}"
  by (simp add: start_simps recorder_unsupported_env_def mic_stream_def initial_def
      errorMessage_def)

section \<open>Releasing the device\<close>

text \<open>
  C5 at a failing input: a session stopped at once, so that finalization finds no chunks.
  The stop handler returns before its clean-up block: the session is in the error state
  with the stream still in the ref and its track live. The URL did not change, so no
  effect cleanup runs, and a reset to idle still leaves the stream held.
\<close>

theorem empty_finalization_keeps_stream:
  "session_state (stopRecording (startRecording safari_env initial)) = Idle \<and>
   session_state empty_finalization = Error \<and>
   streamRef empty_finalization = Some mic_stream \<and>
   stoppedTracks empty_finalization = {} \<and>
   commit (stopRecording (startRecording safari_env initial)) empty_finalization
     = empty_finalization \<and>
   session_state (resetRecording empty_finalization) = Idle \<and>
   streamRef (resetRecording empty_finalization) = Some mic_stream \<and>
   stoppedTracks (resetRecording empty_finalization) = {}"
proof -
  have "audioUrl (stopRecording (startRecording safari_env initial)) = [] \<and>
      session_state (stopRecording (startRecording safari_env initial)) = Idle"
    by (simp add: start_simps example_simps stopRecording_def session_state_def)
  then show ?thesis
    unfolding empty_finalization_eq
    by (simp add: session_state_def commit_def resetRecording_def)
qed

text \<open>The recorder's error handler releases nothing either.\<close>

lemma onerror_keeps_stream:
  "streamRef (onerror s) = streamRef s" "stoppedTracks (onerror s) = stoppedTracks s"
  "timerRef (onerror s) = timerRef s" "activeTimers (onerror s) = activeTimers s"
  by (simp_all add: onerror_def)

text \<open>
  Teardown: the tracks of a held stream are stopped, a held timer is cleared, a preview URL
  is revoked, no cell of the component is assigned, and a second teardown changes nothing.
\<close>

lemma unmount_releases:
  "streamRef s = Some stream \<Longrightarrow> track_id ` set (getTracks stream) \<subseteq> stoppedTracks (unmount s)"
  "timerRef s = Some t \<Longrightarrow> t \<notin> activeTimers (unmount s)"
  "audioUrl s \<noteq> [] \<Longrightarrow> audioUrl s \<in> revokedUrls (unmount s)"
  by (simp_all add: unmount_def effect_cleanup_sets)

lemma unmount_idempotent: "unmount (unmount s) = unmount s"
proof -
  have "audioUrl (effect_cleanup url s) = audioUrl s" for url
    by (cases "timerRef s"; cases "streamRef s"; cases "url = []")
      (simp_all add: effect_cleanup_def Let_def)
  then show ?thesis
    by (simp add: unmount_def effect_cleanup_twice)
qed

section \<open>The upload workflow\<close>

lemmas upload_simps = handleRecordingComplete_def upload_finally_def upload_catch_def Let_def

text \<open>
  C6. When the form passes validation, the workflow calls the storage upload once, at the
  path \<^verbatim>\<open>recordings/<trimmed candidate name>/<uuid>.wav\<close>, with a blob whose type is
  \<^verbatim>\<open>audio/wav\<close> and whose bytes are the artifact's, whatever the artifact's own type.
\<close>

theorem upload_rewraps_as_wav:
  assumes "trim (candidateName a) \<noteq> []" and "trim (questionLabel a) \<noteq> []"
  shows "upload_calls (handleRecordingComplete env blob a) =
           upload_calls a @
             [(''recordings/'' @ trim (candidateName a) @ ''/'' @ uuidv4 env @ ''.wav'',
               \<lparr>blob_data = blob_data blob, blob_type = ''audio/wav''\<rparr>)]"
  using assms
  by (simp add: upload_simps new_Blob_def split: option.splits)

theorem upload_rewraps_as_wav_witness:
  "trim (candidateName form_filled) \<noteq> [] \<and> trim (questionLabel form_filled) \<noteq> [] \<and>
   blob_type mp4_artifact = ''audio/mp4'' \<and>
   upload_calls (handleRecordingComplete upload_ok mp4_artifact form_filled) =
     [(''recordings/Ada/abc.wav'', \<lparr>blob_data = [1, 2, 3], blob_type = ''audio/wav''\<rparr>)]"
proof -
  have a: "trim (candidateName form_filled) = ''Ada'' \<and> trim (questionLabel form_filled) = ''Q1''"
    by (simp add: form_filled_def trim_examples)
  then have b: "trim (candidateName form_filled) \<noteq> [] \<and> trim (questionLabel form_filled) \<noteq> []"
    by simp
  have c: "upload_calls form_filled = [] \<and> uuidv4 upload_ok = ''abc'' \<and>
      blob_data mp4_artifact = [1, 2, 3] \<and> blob_type mp4_artifact = ''audio/mp4''"
    by (simp add: form_filled_def upload_ok_def mp4_artifact_def)
  from b upload_rewraps_as_wav [of form_filled upload_ok mp4_artifact] a c
  show ?thesis by simp
qed

section \<open>Encoding negotiation and the type of the artifact\<close>

lemma first_supported_none:
  "\<forall>ty \<in> set tys. \<not> p ty \<Longrightarrow> first_supported p tys = ''audio/webm''"
  by (induction tys) simp_all

lemma first_supported_first:
  assumes "\<exists>ty \<in> set tys. p ty"
  shows "\<exists>before after. tys = before @ first_supported p tys # after \<and>
           p (first_supported p tys) \<and> (\<forall>ty \<in> set before. \<not> p ty)"
  using assms
proof (induction tys)
  case Nil
  then show ?case by simp
next
  case (Cons ty tys)
  show ?case
  proof (cases "p ty")
    case True
    then have "ty # tys = [] @ first_supported p (ty # tys) # tys \<and>
        p (first_supported p (ty # tys)) \<and> (\<forall>x \<in> set []. \<not> p x)"
      by simp
    then show ?thesis by blast
  next
    case False
    with Cons.prems have "\<exists>x \<in> set tys. p x" by simp
    from Cons.IH [OF this] obtain before after where
      split: "tys = before @ first_supported p tys # after" and
      found: "p (first_supported p tys)" and
      skipped: "\<forall>x \<in> set before. \<not> p x"
      by blast
    from False have same: "first_supported p (ty # tys) = first_supported p tys" by simp
    from split have "ty # tys = (ty # before) @ first_supported p tys # after" by simp
    moreover from skipped False have "\<forall>x \<in> set (ty # before). \<not> p x" by simp
    ultimately show ?thesis
      unfolding same using found by blast
  qed
qed

lemma started_recorder_type:
  assumes "isRecording (startRecording env s0)" and "construct_with_mimeType env = None"
  shows "map_option rec_mimeType (mediaRecorderRef (startRecording env s0))
           = Some (Some (getSupportedMimeType (isTypeSupported env)))"
  using assms
  by (auto simp: start_simps split: sum.splits option.splits if_splits)

lemma recorder_type_kept:
  "map_option rec_mimeType (mediaRecorderRef (ondataavailable d s))
     = map_option rec_mimeType (mediaRecorderRef s)"
  "map_option rec_mimeType (mediaRecorderRef (tick t s))
     = map_option rec_mimeType (mediaRecorderRef s)"
  "map_option rec_mimeType (mediaRecorderRef (stopRecording s))
     = map_option rec_mimeType (mediaRecorderRef s)"
  "map_option rec_mimeType (mediaRecorderRef (onerror s))
     = map_option rec_mimeType (mediaRecorderRef s)"
  by (simp_all add: ondataavailable_def tick_def stopRecording_def onerror_def Let_def
      split: option.splits)

lemma recorder_type_kept_onstop:
  "map_option rec_mimeType (mediaRecorderRef (onstop u s))
     = map_option rec_mimeType (mediaRecorderRef s)"
proof -
  have "mediaRecorderRef (cleanup_stream x) = mediaRecorderRef x" for x
    by (simp add: cleanup_stream_def split: option.splits)
  then show ?thesis
    by (simp add: onstop_def Let_def)
qed

lemma onstop_artifact_type:
  assumes "0 < totalSize (audioChunksRef s)"
  shows "map_option blob_type (audioBlob (onstop u s))
           = Some (if blob_type (hd (audioChunksRef s)) = [] then ''audio/webm''
                   else blob_type (hd (audioChunksRef s)))"
proof -
  from assms obtain c cs where "audioChunksRef s = c # cs"
    by (cases "audioChunksRef s") (auto simp: totalSize_def)
  then show ?thesis
    using onstop_artifact [OF assms, of u] by (simp add: new_Blob_def firstChunkType_def)
qed

text \<open>
  C7 as stated fails in its last part. On a platform that supports only \<^verbatim>\<open>audio/mp4\<close> the
  negotiated type is \<^verbatim>\<open>audio/mp4\<close>; a fragment that carries no type gives an artifact of
  type \<^verbatim>\<open>audio/webm\<close>, not of the negotiated type.
\<close>

theorem artifact_type_fallback_counterexample:
  "getSupportedMimeType (isTypeSupported safari_env) = ''audio/mp4'' \<and>
   map_option rec_mimeType (mediaRecorderRef (startRecording safari_env initial))
     = Some (Some ''audio/mp4'') \<and>
   blob_type untyped_fragment = [] \<and>
   map_option blob_type (audioBlob (onstop ''1'' (stopRecording
       (deliver [untyped_fragment] (startRecording safari_env initial)))))
     = Some ''audio/webm'' \<and>
   map_option blob_type (audioBlob (onstop ''1'' (stopRecording
       (deliver [untyped_fragment] (startRecording safari_env initial)))))
     \<noteq> Some (getSupportedMimeType (isTypeSupported safari_env))"
  by (simp add: start_simps example_simps getSupportedMimeType_def types_def untyped_fragment_def
      stopRecording_def onstop_def totalSize_def new_Blob_def firstChunkType_def
      createObjectURL_def cleanup_stream_def)

text \<open>
  C7 as amended. Negotiation returns the first entry of the preference list that the probe
  supports, and \<^verbatim>\<open>audio/webm\<close> when it supports none. A recorder constructed with the
  negotiated type keeps it: no later handler changes the type of the recorder handle. The
  artifact carries the type of the first chunk, and the fixed type \<^verbatim>\<open>audio/webm\<close> when the
  first chunk carries none.
\<close>

theorem negotiation_and_artifact_type:
  "types = [''audio/webm;codecs=opus'', ''audio/webm'', ''audio/ogg;codecs=opus'',
            ''audio/mp4'', ''audio/wav''] \<and>
   ((\<forall>ty \<in> set types. \<not> p ty) \<longrightarrow> getSupportedMimeType p = ''audio/webm'') \<and>
   ((\<exists>ty \<in> set types. p ty) \<longrightarrow>
      (\<exists>before after. types = before @ getSupportedMimeType p # after \<and>
         p (getSupportedMimeType p) \<and> (\<forall>ty \<in> set before. \<not> p ty))) \<and>
   (isRecording (startRecording env s0) \<and> construct_with_mimeType env = None \<longrightarrow>
      map_option rec_mimeType (mediaRecorderRef (startRecording env s0))
        = Some (Some (getSupportedMimeType (isTypeSupported env)))) \<and>
   map_option rec_mimeType (mediaRecorderRef (ondataavailable d s))
     = map_option rec_mimeType (mediaRecorderRef s) \<and>
   map_option rec_mimeType (mediaRecorderRef (tick t s))
     = map_option rec_mimeType (mediaRecorderRef s) \<and>
   map_option rec_mimeType (mediaRecorderRef (stopRecording s))
     = map_option rec_mimeType (mediaRecorderRef s) \<and>
   map_option rec_mimeType (mediaRecorderRef (onerror s))
     = map_option rec_mimeType (mediaRecorderRef s) \<and>
   map_option rec_mimeType (mediaRecorderRef (onstop u s))
     = map_option rec_mimeType (mediaRecorderRef s) \<and>
   (0 < totalSize (audioChunksRef s) \<longrightarrow>
      map_option blob_type (audioBlob (onstop u s))
        = Some (if blob_type (hd (audioChunksRef s)) = [] then ''audio/webm''
                else blob_type (hd (audioChunksRef s))))"
proof -
  have a: "(\<forall>ty \<in> set types. \<not> p ty) \<longrightarrow> getSupportedMimeType p = ''audio/webm''"
    unfolding getSupportedMimeType_def using first_supported_none [of types p] by blast
  have b: "(\<exists>ty \<in> set types. p ty) \<longrightarrow>
      (\<exists>before after. types = before @ getSupportedMimeType p # after \<and>
         p (getSupportedMimeType p) \<and> (\<forall>ty \<in> set before. \<not> p ty))"
    unfolding getSupportedMimeType_def using first_supported_first [of types p] by blast
  have c: "isRecording (startRecording env s0) \<and> construct_with_mimeType env = None \<longrightarrow>
      map_option rec_mimeType (mediaRecorderRef (startRecording env s0))
        = Some (Some (getSupportedMimeType (isTypeSupported env)))"
    using started_recorder_type [of env s0] by blast
  have d: "0 < totalSize (audioChunksRef s) \<longrightarrow>
      map_option blob_type (audioBlob (onstop u s))
        = Some (if blob_type (hd (audioChunksRef s)) = [] then ''audio/webm''
                else blob_type (hd (audioChunksRef s)))"
    using onstop_artifact_type [of s u] by blast
  show ?thesis
    apply (intro conjI)
             apply (rule types_def)
            apply (rule a)
           apply (rule b)
          apply (rule c)
         apply (rule recorder_type_kept(1))
        apply (rule recorder_type_kept(2))
       apply (rule recorder_type_kept(3))
      apply (rule recorder_type_kept(4))
     apply (rule recorder_type_kept_onstop)
    apply (rule d)
    done
qed

theorem negotiation_and_artifact_type_witness:
  "(\<exists>ty \<in> set types. isTypeSupported safari_env ty) \<and>
   getSupportedMimeType (isTypeSupported safari_env) = ''audio/mp4'' \<and>
   getSupportedMimeType (\<lambda>ty. False) = ''audio/webm'' \<and>
   isRecording (startRecording safari_env initial) \<and>
   construct_with_mimeType safari_env = None \<and>
   map_option rec_mimeType (mediaRecorderRef (startRecording safari_env initial))
     = Some (Some ''audio/mp4'') \<and>
   0 < totalSize (audioChunksRef recording_session) \<and>
   map_option blob_type (audioBlob (onstop ''1'' recording_session)) = Some ''audio/mp4''"
proof -
  note none = negotiation_and_artifact_type [where p = "\<lambda>ty. False" and env = safari_env
      and ?s0.0 = initial and d = untyped_fragment and t = 1 and s = recording_session
      and u = "''1''"]
  note mp4 = negotiation_and_artifact_type [where p = "isTypeSupported safari_env"
      and env = safari_env and ?s0.0 = initial and d = untyped_fragment and t = 1
      and s = recording_session and u = "''1''"]
  have h1: "\<forall>ty \<in> set types. \<not> (\<lambda>ty. False) ty" by simp
  have w1: "getSupportedMimeType (\<lambda>ty. False) = ''audio/webm''"
    using none h1 by blast
  have h2: "\<exists>ty \<in> set types. isTypeSupported safari_env ty"
    by (simp add: types_def safari_env_def)
  have "isTypeSupported safari_env (getSupportedMimeType (isTypeSupported safari_env))"
    using mp4 h2 by blast
  then have w2: "getSupportedMimeType (isTypeSupported safari_env) = ''audio/mp4''"
    by (simp add: safari_env_def)
  have h3: "isRecording (startRecording safari_env initial) \<and>
      construct_with_mimeType safari_env = None"
    using safari_started by (simp add: safari_env_def)
  have w3: "map_option rec_mimeType (mediaRecorderRef (startRecording safari_env initial))
      = Some (Some ''audio/mp4'')"
    using mp4 h3 w2 by simp
  have h4: "0 < totalSize (audioChunksRef recording_session)"
    by (simp add: recording_session_eq totalSize_def blob_size_def)
  have "map_option blob_type (audioBlob (onstop ''1'' recording_session))
      = Some (if blob_type (hd (audioChunksRef recording_session)) = [] then ''audio/webm''
              else blob_type (hd (audioChunksRef recording_session)))"
    using mp4 h4 by blast
  then have w4: "map_option blob_type (audioBlob (onstop ''1'' recording_session))
      = Some ''audio/mp4''"
    by (simp add: recording_session_eq)
  from h2 w2 w1 h3 w3 h4 w4 show ?thesis by blast
qed

section \<open>Reset\<close>

text \<open>
  C8. From the stopped state and from the error state, \<^verbatim>\<open>resetRecording\<close> gives the idle
  state with an empty chunk buffer, no artifact, zero elapsed time, no error message and no
  preview URL, the URL it held being revoked.
\<close>

theorem reset_returns_to_idle:
  assumes "session_state s = Stopped \<or> session_state s = Error"
  shows "session_state (resetRecording s) = Idle \<and> audioChunksRef (resetRecording s) = [] \<and>
         audioBlob (resetRecording s) = None \<and> recordingTime (resetRecording s) = 0 \<and>
         error (resetRecording s) = [] \<and> audioUrl (resetRecording s) = [] \<and>
         (audioUrl s \<noteq> [] \<longrightarrow> audioUrl s \<in> revokedUrls (resetRecording s))"
proof -
  from assms have "\<not> isRecording s"
    by (auto simp: session_state_def split: if_splits)
  then show ?thesis
    by (simp add: resetRecording_def session_state_def)
qed

text \<open>The effect cleanup that follows a change of the URL keeps all of this.\<close>

lemma reset_then_commit:
  "session_state (commit s (resetRecording s)) = session_state (resetRecording s)"
  "revokedUrls (resetRecording s) \<subseteq> revokedUrls (commit s (resetRecording s))"
  by (simp_all add: session_state_def commit_cells commit_revoked)

theorem reset_returns_to_idle_witness:
  "session_state stopped_session = Stopped \<and> audioUrl stopped_session = ''blob:1'' \<and>
   session_state (resetRecording stopped_session) = Idle \<and>
   audioBlob (resetRecording stopped_session) = None \<and>
   ''blob:1'' \<in> revokedUrls (resetRecording stopped_session) \<and>
   session_state empty_finalization = Error \<and>
   session_state (resetRecording empty_finalization) = Idle \<and>
   error (resetRecording empty_finalization) = []"
proof -
  have a: "session_state stopped_session = Stopped \<and> audioUrl stopped_session = ''blob:1''"
    by (simp add: stopped_session_eq session_state_def)
  have b: "session_state empty_finalization = Error"
    by (simp add: empty_finalization_eq session_state_def)
  have c: "audioUrl stopped_session \<noteq> []"
    using a by simp
  from a c reset_returns_to_idle [of stopped_session] have
    "session_state (resetRecording stopped_session) = Idle \<and>
     audioBlob (resetRecording stopped_session) = None \<and>
     ''blob:1'' \<in> revokedUrls (resetRecording stopped_session)"
    by metis
  moreover from b reset_returns_to_idle [of empty_finalization] have
    "session_state (resetRecording empty_finalization) = Idle \<and>
     error (resetRecording empty_finalization) = []"
    by blast
  ultimately show ?thesis using a b by blast
qed

section \<open>The recordings query\<close>

text \<open>
  C9. The query carries the equality filter of \<^verbatim>\<open>user_id\<close> against the identity's id
  exactly when the identity is not privileged, and no filter at all exactly when it is;
  an identity is privileged exactly when its email is the fixed admin email.
\<close>

theorem recordings_query_filter:
  "(eq_filters (fetchRecordings_query u) = [(''user_id'', uid u)] \<longleftrightarrow> \<not> isAdmin (Some u)) \<and>
   (eq_filters (fetchRecordings_query u) = [] \<longleftrightarrow> isAdmin (Some u)) \<and>
   (isAdmin (Some u) \<longleftrightarrow> email u = Some ''banuweb3@gmail.com'') \<and>
   \<not> isAdmin None \<and>
   from_table (fetchRecordings_query u) = ''recording_logs'' \<and>
   select_columns (fetchRecordings_query u) = ''*''"
  by (simp add: fetchRecordings_query_def query_eq_def query_order_def isAdmin_def Let_def)

theorem recordings_query_filter_witness:
  "isAdmin (Some admin) \<and> eq_filters (fetchRecordings_query admin) = [] \<and>
   \<not> isAdmin (Some ada) \<and> eq_filters (fetchRecordings_query ada) = [(''user_id'', ''u1'')]"
proof -
  have a: "email admin = Some ''banuweb3@gmail.com''" by (simp add: admin_def)
  have b: "email ada \<noteq> Some ''banuweb3@gmail.com'' \<and> uid ada = ''u1''" by (simp add: ada_def)
  from a b recordings_query_filter [of admin] recordings_query_filter [of ada]
  show ?thesis by metis
qed

section \<open>Validation of the form\<close>

text \<open>
  C10. With an empty trimmed candidate name, or else an empty trimmed question label, the
  workflow only sets the validation message: every other field of the form is unchanged,
  no upload and no insert is called, and a click on upload leaves the recorder, artifact
  included, as it was. When upload and insert both succeed, the candidate name and the
  question label are cleared and the question position is 1 again.
\<close>

theorem upload_validation:
  "(trim (candidateName a) = [] \<longrightarrow>
      handleRecordingComplete env blob a = a\<lparr>uploadError := ''Please enter candidate name''\<rparr>) \<and>
   (trim (candidateName a) \<noteq> [] \<and> trim (questionLabel a) = [] \<longrightarrow>
      handleRecordingComplete env blob a = a\<lparr>uploadError := ''Please enter question label''\<rparr>) \<and>
   (trim (candidateName a) = [] \<or> trim (questionLabel a) = [] \<longrightarrow>
      upload_calls (handleRecordingComplete env blob a) = upload_calls a \<and>
      insert_calls (handleRecordingComplete env blob a) = insert_calls a \<and>
      snd (click_upload env (a, s)) = s) \<and>
   (trim (candidateName a) \<noteq> [] \<and> trim (questionLabel a) \<noteq> [] \<and>
    upload_error env = None \<and> db_error env = None \<longrightarrow>
      candidateName (handleRecordingComplete env blob a) = [] \<and>
      questionLabel (handleRecordingComplete env blob a) = [] \<and>
      questionPosition (handleRecordingComplete env blob a) = 1 \<and>
      uploadSuccess (handleRecordingComplete env blob a) \<and>
      \<not> isUploading (handleRecordingComplete env blob a))"
proof -
  have page: "snd (click_upload env (a, s)) = s"
    by (simp add: click_upload_def split: option.splits)
  show ?thesis
    by (simp add: upload_simps page)
qed

theorem upload_validation_witness:
  "trim (candidateName (form_filled\<lparr>candidateName := ''   ''\<rparr>)) = [] \<and>
   handleRecordingComplete upload_ok mp4_artifact (form_filled\<lparr>candidateName := ''   ''\<rparr>)
     = form_filled\<lparr>candidateName := ''   '', uploadError := ''Please enter candidate name''\<rparr> \<and>
   upload_calls (handleRecordingComplete upload_ok mp4_artifact
     (form_filled\<lparr>candidateName := ''   ''\<rparr>)) = [] \<and>
   trim (candidateName (form_filled\<lparr>questionLabel := []\<rparr>)) \<noteq> [] \<and>
   trim (questionLabel (form_filled\<lparr>questionLabel := []\<rparr>)) = [] \<and>
   uploadError (handleRecordingComplete upload_ok mp4_artifact (form_filled\<lparr>questionLabel := []\<rparr>))
     = ''Please enter question label'' \<and>
   snd (click_upload upload_ok (form_filled\<lparr>questionLabel := []\<rparr>, stopped_session))
     = stopped_session \<and>
   trim (candidateName form_filled) \<noteq> [] \<and> trim (questionLabel form_filled) \<noteq> [] \<and>
   upload_error upload_ok = None \<and> db_error upload_ok = None \<and>
   candidateName (handleRecordingComplete upload_ok mp4_artifact form_filled) = [] \<and>
   questionLabel (handleRecordingComplete upload_ok mp4_artifact form_filled) = [] \<and>
   questionPosition (handleRecordingComplete upload_ok mp4_artifact form_filled) = 1"
proof -
  let ?blank = "form_filled\<lparr>candidateName := ''   ''\<rparr>"
  let ?nolabel = "form_filled\<lparr>questionLabel := []\<rparr>"
  have a: "trim (candidateName ?blank) = [] \<and> upload_calls ?blank = []"
    by (simp add: form_filled_def trim_examples)
  have b: "trim (candidateName ?nolabel) \<noteq> [] \<and> trim (questionLabel ?nolabel) = []"
    by (simp add: form_filled_def trim_examples)
  have c: "trim (candidateName form_filled) \<noteq> [] \<and> trim (questionLabel form_filled) \<noteq> [] \<and>
      upload_error upload_ok = None \<and> db_error upload_ok = None"
    by (simp add: form_filled_def trim_examples upload_ok_def)
  from a upload_validation [of ?blank upload_ok mp4_artifact stopped_session] have wa:
    "handleRecordingComplete upload_ok mp4_artifact ?blank
       = form_filled\<lparr>candidateName := ''   '', uploadError := ''Please enter candidate name''\<rparr> \<and>
     upload_calls (handleRecordingComplete upload_ok mp4_artifact ?blank) = []"
    by simp
  from b upload_validation [of ?nolabel upload_ok mp4_artifact stopped_session] have wb:
    "uploadError (handleRecordingComplete upload_ok mp4_artifact ?nolabel)
       = ''Please enter question label'' \<and>
     snd (click_upload upload_ok (?nolabel, stopped_session)) = stopped_session"
    by simp
  from c upload_validation [of form_filled upload_ok mp4_artifact stopped_session] have wc:
    "candidateName (handleRecordingComplete upload_ok mp4_artifact form_filled) = [] \<and>
     questionLabel (handleRecordingComplete upload_ok mp4_artifact form_filled) = [] \<and>
     questionPosition (handleRecordingComplete upload_ok mp4_artifact form_filled) = 1"
    by simp
  from a b c wa wb wc show ?thesis by blast
qed

end
